theory Spec2Isabelle
  imports Main
begin

section \<open>The voice-assistant page: permission and connection control\<close>

text \<open>
  The page component keeps one piece of state of its own, \<open>micPermission\<close>, and one
  handle to a room of the real-time client library. Everything else it does is a call
  into the browser (\<open>getUserMedia\<close>, \<open>fetch\<close>, \<open>alert\<close>, the console) or into
  the client library (\<open>room.connect\<close>, \<open>setMicrophoneEnabled\<close>, the agent state,
  the disconnect button). Those calls are not part of the page: their outcomes are
  parameters here. The browser's outcomes during one handler run are a record
  \<open>browser\<close>; the client library is a record \<open>sdk\<close> of functions over an
  arbitrary room type. Each \<open>async\<close> function returns the outcome of its promise
  (\<open>Inl\<close> the value it rejects with) together with the page state it leaves.

  The handlers are given twice: first whole, from call to end, as the source reads;
  then cut at their awaits, so that the events of the running page can resume them
  in any order. The two are shown to agree when nothing comes in between.
\<close>

subsection \<open>Values\<close>

text \<open>The DOM type \<open>PermissionState\<close>: \<open>'prompt'\<close>, \<open>'granted'\<close>, \<open>'denied'\<close>.\<close>

datatype PermissionState = Prompt | Granted | Denied

text \<open>A thrown or rejected value, named by the text its origin supplies.\<close>

datatype js_error = JsError string

text \<open>
  What \<open>response.json()\<close> can resolve to, and \<open>undefined\<close>, which a property read
  adds. The TypeScript annotation \<open>ConnectionDetails\<close> is erased at run time, so the
  parsed body is any JSON value. Numbers are only ever passed through.
\<close>

datatype js_value =
    Undefined
  | Null
  | Bool bool
  | Num int
  | Str string
  | Arr "js_value list"
  | Obj "(string \<times> js_value) list"

text \<open>
  The property read \<open>v.k\<close> for a key that no prototype defines: a \<open>TypeError\<close> on
  \<open>null\<close> and \<open>undefined\<close>, the member's value on an object holding the key (the
  last one where the JSON text repeated it), \<open>undefined\<close> otherwise.
\<close>

fun getProp :: "js_value \<Rightarrow> string \<Rightarrow> js_error + js_value" where
  "getProp Undefined k = Inl (JsError ''TypeError'')"
| "getProp Null k = Inl (JsError ''TypeError'')"
| "getProp (Obj kvs) k = Inr (case map_of (rev kvs) k of None \<Rightarrow> Undefined | Some v \<Rightarrow> v)"
| "getProp v k = Inr Undefined"

text \<open>The calls the page makes that are visible outside it, in the order made.\<close>

datatype logarg = Text string | Thrown js_error

datatype effect =
    GetUserMedia
  | TrackStop nat
  | ConsoleLog "logarg list"
  | ConsoleError "logarg list"
  | Alert string
  | Fetch string
  | RoomConnect js_value js_value
  | SetMicrophoneEnabled bool

subsection \<open>The environment\<close>

text \<open>
  An HTTP response as the page uses it: the page calls \<open>json()\<close> on it and reads
  nothing else. The status is carried so that statements can speak about it.
\<close>

record response =
  status :: nat
  json :: "js_error + js_value"

text \<open>
  The browser during one handler run: the outcome of
  \<open>navigator.mediaDevices.getUserMedia({audio: true})\<close> (the tracks of the stream, by
  number), the build-time variable \<open>NEXT_PUBLIC_CONN_DETAILS_ENDPOINT\<close>,
  \<open>window.location.origin\<close>, the constructor \<open>new URL(path, base)\<close> followed by
  \<open>toString()\<close>, and \<open>fetch\<close>.
\<close>

record browser =
  getUserMedia :: "js_error + nat list"
  connDetailsEndpoint :: "string option"
  locationOrigin :: string
  newURL :: "string \<Rightarrow> string \<Rightarrow> js_error + string"
  fetch :: "string \<Rightarrow> js_error + response"

text \<open>
  The client library over a room type \<open>'room\<close>: the state \<open>useVoiceAssistant\<close>
  reports for a room, \<open>room.connect(url, token)\<close> and
  \<open>room.localParticipant.setMicrophoneEnabled(b)\<close> (each gives the room it leaves and
  the value it rejects with, if it does), and what a click on \<open>DisconnectButton\<close>
  does to the room.
\<close>

record 'room sdk =
  agentState :: "'room \<Rightarrow> string"
  connect :: "'room \<Rightarrow> js_value \<Rightarrow> js_value \<Rightarrow> js_error option \<times> 'room"
  setMicrophoneEnabled :: "'room \<Rightarrow> bool \<Rightarrow> js_error option \<times> 'room"
  disconnectButton :: "'room \<Rightarrow> 'room"

subsection \<open>The page state\<close>

text \<open>
  \<open>room\<close> and \<open>micPermission\<close> are the two \<open>useState\<close> cells of \<open>Page\<close>;
  \<open>micPermission\<close> holds the value last given to \<open>setMicPermission\<close>, which the
  component renders with from its next render on.
  \<open>effects\<close> is the trace of outside calls. \<open>attempts\<close> is a history variable: each
  entry of \<open>onConnectButtonClicked\<close> appends the permission state and the agent state
  it was entered in.
\<close>

record 'room page =
  room :: 'room
  micPermission :: PermissionState
  effects :: "effect list"
  attempts :: "(PermissionState \<times> string) list"

definition initialPage :: "'room \<Rightarrow> 'room page" where
  "initialPage r = \<lparr>room = r, micPermission = Prompt, effects = [], attempts = []\<rparr>"

definition emit :: "effect list \<Rightarrow> 'room page \<Rightarrow> 'room page" where
  "emit es s = s\<lparr>effects := effects s @ es\<rparr>"

subsection \<open>checkMicPermission\<close>

text \<open>The \<open>try\<close> block: open the microphone, stop every track, record the grant.\<close>

definition checkMicPermission_try :: "browser \<Rightarrow> 'room page \<Rightarrow> (js_error + bool) \<times> 'room page" where
  "checkMicPermission_try w s =
     (case getUserMedia w of
        Inl e \<Rightarrow> (Inl e, emit [GetUserMedia] s)
      | Inr tracks \<Rightarrow>
          (Inr True, (emit (GetUserMedia # map TrackStop tracks) s)\<lparr>micPermission := Granted\<rparr>))"

definition checkMicPermission :: "browser \<Rightarrow> 'room page \<Rightarrow> (js_error + bool) \<times> 'room page" where
  "checkMicPermission w s =
     (case checkMicPermission_try w s of
        (Inl e, s') \<Rightarrow>
          (Inr False,
           (emit [ConsoleLog [Text ''Microphone permission not granted:'', Thrown e]] s')
             \<lparr>micPermission := Prompt\<rparr>)
      | (Inr b, s') \<Rightarrow> (Inr b, s'))"

subsection \<open>onConnectButtonClicked\<close>

text \<open>
  The address is \<open>new URL(process.env.NEXT_PUBLIC_CONN_DETAILS_ENDPOINT ??
  "/api/connection-details", window.location.origin)\<close>, fetched as \<open>url.toString()\<close>.
  No \<open>try\<close> here: the first call that rejects ends the function with that value.
  The response's status is not read, and the two members of the parsed body go to
  \<open>room.connect\<close> as they are.
\<close>

definition connectionDetailsURL :: "browser \<Rightarrow> js_error + string" where
  "connectionDetailsURL w =
     newURL w (case connDetailsEndpoint w of None \<Rightarrow> ''/api/connection-details'' | Some p \<Rightarrow> p)
       (locationOrigin w)"

definition onConnectButtonClicked ::
  "'room sdk \<Rightarrow> browser \<Rightarrow> 'room page \<Rightarrow> (js_error + unit) \<times> 'room page" where
  "onConnectButtonClicked lk w s0 =
     (let s = s0\<lparr>attempts := attempts s0 @ [(micPermission s0, agentState lk (room s0))]\<rparr> in
      case connectionDetailsURL w of
        Inl e \<Rightarrow> (Inl e, s)
      | Inr url \<Rightarrow>
         (let s1 = emit [Fetch url] s in
          case fetch w url of
            Inl e \<Rightarrow> (Inl e, s1)
          | Inr resp \<Rightarrow>
             (case json resp of
                Inl e \<Rightarrow> (Inl e, s1)
              | Inr connectionDetailsData \<Rightarrow>
                 (case getProp connectionDetailsData ''serverUrl'' of
                    Inl e \<Rightarrow> (Inl e, s1)
                  | Inr serverUrl \<Rightarrow>
                     (case getProp connectionDetailsData ''participantToken'' of
                        Inl e \<Rightarrow> (Inl e, s1)
                      | Inr participantToken \<Rightarrow>
                         (case connect lk (room s1) serverUrl participantToken of
                            (Some e, r) \<Rightarrow>
                              (Inl e, (emit [RoomConnect serverUrl participantToken] s1)\<lparr>room := r\<rparr>)
                          | (None, r) \<Rightarrow>
                             (let s2 = (emit [RoomConnect serverUrl participantToken] s1)\<lparr>room := r\<rparr> in
                              case setMicrophoneEnabled lk (room s2) True of
                                (Some e, r') \<Rightarrow>
                                  (Inl e, (emit [SetMicrophoneEnabled True] s2)\<lparr>room := r'\<rparr>)
                              | (None, r') \<Rightarrow>
                                  (Inr (), (emit [SetMicrophoneEnabled True] s2)\<lparr>room := r'\<rparr>))))))))"

subsection \<open>requestMicPermission\<close>

definition requestMicPermission_try ::
  "'room sdk \<Rightarrow> browser \<Rightarrow> 'room page \<Rightarrow> (js_error + unit) \<times> 'room page" where
  "requestMicPermission_try lk w s =
     (case getUserMedia w of
        Inl e \<Rightarrow> (Inl e, emit [GetUserMedia] s)
      | Inr tracks \<Rightarrow>
          onConnectButtonClicked lk w
            ((emit (GetUserMedia # map TrackStop tracks) s)\<lparr>micPermission := Granted\<rparr>))"

definition requestMicPermission ::
  "'room sdk \<Rightarrow> browser \<Rightarrow> 'room page \<Rightarrow> (js_error + unit) \<times> 'room page" where
  "requestMicPermission lk w s =
     (case requestMicPermission_try lk w s of
        (Inl e, s') \<Rightarrow>
          (Inr (),
           emit [Alert ''Microphone access was denied. Please check your browser settings.'']
             ((emit [ConsoleError [Text ''Error acquiring microphone permissions:'', Thrown e]] s')
                \<lparr>micPermission := Denied\<rparr>))
      | (Inr u, s') \<Rightarrow> (Inr (), s'))"

subsection \<open>onDeviceFailure\<close>

definition onDeviceFailure :: "js_error \<Rightarrow> 'room page \<Rightarrow> 'room page" where
  "onDeviceFailure error s =
     emit [ConsoleError [Thrown error],
           Alert ''Error acquiring camera or microphone permissions. Please make sure you grant the necessary permissions in your browser and reload the tab'']
       s"

subsection \<open>What is rendered\<close>

text \<open>
  \<open>SimpleVoiceAssistant\<close> renders its buttons only while the agent state is
  \<open>"disconnected"\<close>: the request button unless the permission is granted, the start
  button otherwise. \<open>ControlBar\<close> renders the disconnect button unless the agent state
  is \<open>"disconnected"\<close> or \<open>"connecting"\<close>.
\<close>

definition rendersRequestButton :: "'room sdk \<Rightarrow> 'room page \<Rightarrow> bool" where
  "rendersRequestButton lk s =
     (agentState lk (room s) = ''disconnected'' \<and> micPermission s \<noteq> Granted)"

definition rendersStartButton :: "'room sdk \<Rightarrow> 'room page \<Rightarrow> bool" where
  "rendersStartButton lk s =
     (agentState lk (room s) = ''disconnected'' \<and> \<not> micPermission s \<noteq> Granted)"

definition rendersDisconnectButton :: "'room sdk \<Rightarrow> 'room page \<Rightarrow> bool" where
  "rendersDisconnectButton lk s =
     (agentState lk (room s) \<noteq> ''disconnected'' \<and> agentState lk (room s) \<noteq> ''connecting'')"

subsection \<open>Handlers between their awaits\<close>

text \<open>
  An \<open>async\<close> function runs until its next \<open>await\<close> and is resumed when the promise
  it waits for settles; other events are handled in between. A continuation names the
  \<open>await\<close> a handler is suspended at and holds what the rest of the handler needs:
  \<open>checkMicPermission\<close> and \<open>requestMicPermission\<close> at \<open>await getUserMedia\<close>;
  \<open>onConnectButtonClicked\<close> at \<open>await fetch\<close>, \<open>await response.json()\<close>,
  \<open>await room.connect\<close> and \<open>await setMicrophoneEnabled\<close>. The flag says whether
  \<open>onConnectButtonClicked\<close> was called inside the \<open>try\<close> of \<open>requestMicPermission\<close>
  (a rejection then reaches its \<open>catch\<close>) or by the start button (a rejection is not
  caught by anything). The browser record of a handler gives the outcomes its awaits
  will have; the client library's \<open>connect\<close> and \<open>setMicrophoneEnabled\<close> act on the
  room as it is when their promise settles.
\<close>

datatype continuation =
    AwaitProbe browser
  | AwaitRequest browser
  | AwaitFetch bool browser string
  | AwaitJson bool response
  | AwaitConnect bool js_value js_value
  | AwaitMicrophone bool

text \<open>The \<open>catch\<close> block of \<open>requestMicPermission\<close>.\<close>

definition requestMicPermission_catch :: "js_error \<Rightarrow> 'room page \<Rightarrow> 'room page" where
  "requestMicPermission_catch e s =
     emit [Alert ''Microphone access was denied. Please check your browser settings.'']
       ((emit [ConsoleError [Text ''Error acquiring microphone permissions:'', Thrown e]] s)
          \<lparr>micPermission := Denied\<rparr>)"

definition rejects :: "bool \<Rightarrow> js_error \<Rightarrow> 'room page \<Rightarrow> 'room page" where
  "rejects inTry e s = (if inTry then requestMicPermission_catch e s else s)"

text \<open>\<open>onConnectButtonClicked\<close> from its entry to \<open>await fetch\<close>.\<close>

definition onConnectButtonClicked_begin ::
  "'room sdk \<Rightarrow> bool \<Rightarrow> browser \<Rightarrow> 'room page \<Rightarrow> continuation option \<times> 'room page" where
  "onConnectButtonClicked_begin lk inTry w s0 =
     (let s = s0\<lparr>attempts := attempts s0 @ [(micPermission s0, agentState lk (room s0))]\<rparr> in
      case connectionDetailsURL w of
        Inl e \<Rightarrow> (None, rejects inTry e s)
      | Inr url \<Rightarrow> (Some (AwaitFetch inTry w url), emit [Fetch url] s))"

text \<open>
  A suspended handler from the settling of its promise to its next \<open>await\<close>
  (\<open>Some\<close> the new continuation) or to its end (\<open>None\<close>).
\<close>

fun resume ::
  "'room sdk \<Rightarrow> continuation \<Rightarrow> 'room page \<Rightarrow> continuation option \<times> 'room page" where
  "resume lk (AwaitProbe w) s =
     (case getUserMedia w of
        Inl e \<Rightarrow>
          (None, (emit [ConsoleLog [Text ''Microphone permission not granted:'', Thrown e]] s)
                   \<lparr>micPermission := Prompt\<rparr>)
      | Inr tracks \<Rightarrow> (None, (emit (map TrackStop tracks) s)\<lparr>micPermission := Granted\<rparr>))"
| "resume lk (AwaitRequest w) s =
     (case getUserMedia w of
        Inl e \<Rightarrow> (None, requestMicPermission_catch e s)
      | Inr tracks \<Rightarrow>
          onConnectButtonClicked_begin lk True w
            ((emit (map TrackStop tracks) s)\<lparr>micPermission := Granted\<rparr>))"
| "resume lk (AwaitFetch inTry w url) s =
     (case fetch w url of
        Inl e \<Rightarrow> (None, rejects inTry e s)
      | Inr resp \<Rightarrow> (Some (AwaitJson inTry resp), s))"
| "resume lk (AwaitJson inTry resp) s =
     (case json resp of
        Inl e \<Rightarrow> (None, rejects inTry e s)
      | Inr connectionDetailsData \<Rightarrow>
         (case getProp connectionDetailsData ''serverUrl'' of
            Inl e \<Rightarrow> (None, rejects inTry e s)
          | Inr serverUrl \<Rightarrow>
             (case getProp connectionDetailsData ''participantToken'' of
                Inl e \<Rightarrow> (None, rejects inTry e s)
              | Inr participantToken \<Rightarrow>
                  (Some (AwaitConnect inTry serverUrl participantToken),
                   emit [RoomConnect serverUrl participantToken] s))))"
| "resume lk (AwaitConnect inTry serverUrl participantToken) s =
     (case connect lk (room s) serverUrl participantToken of
        (Some e, r) \<Rightarrow> (None, rejects inTry e (s\<lparr>room := r\<rparr>))
      | (None, r) \<Rightarrow>
          (Some (AwaitMicrophone inTry), emit [SetMicrophoneEnabled True] (s\<lparr>room := r\<rparr>)))"
| "resume lk (AwaitMicrophone inTry) s =
     (case setMicrophoneEnabled lk (room s) True of
        (Some e, r) \<Rightarrow> (None, rejects inTry e (s\<lparr>room := r\<rparr>))
      | (None, r) \<Rightarrow> (None, s\<lparr>room := r\<rparr>))"

subsection \<open>The running page and its events\<close>

text \<open>
  The running page: the page state and the handlers that are suspended. A handler
  that reaches its next \<open>await\<close> stays in its place in the list; one that ends is
  taken out.
\<close>

record 'room app =
  current :: "'room page"
  inflight :: "continuation list"


definition settle :: "continuation list \<Rightarrow> nat \<Rightarrow> continuation option \<Rightarrow> continuation list" where
  "settle ks i k = (case k of None \<Rightarrow> take i ks @ drop (Suc i) ks | Some k' \<Rightarrow> ks[i := k'])"

text \<open>
  The events: the mount effect that calls \<open>checkMicPermission\<close>; a click on each of
  the three buttons (a button that is not rendered cannot be clicked: the event
  changes nothing); the settling of the promise that the \<open>i\<close>-th suspended handler
  waits for; a \<open>MediaDevicesError\<close> of the room, to which \<open>onDeviceFailure\<close> is
  subscribed; and a change the client library makes to the room by itself. An event
  runs one handler from where it stands to its next \<open>await\<close>. Nothing disables or
  hides a button while a handler it started is suspended, so events may come in any
  order. The component is taken to re-render between events: the buttons rendered at
  an event are those of the page state at that event.
\<close>

datatype 'room event =
    Mount browser
  | ClickRequestMic browser
  | ClickStart browser
  | ClickDisconnect
  | Resume nat
  | MediaDevicesError js_error
  | RoomChange "'room \<Rightarrow> 'room"

fun step :: "'room sdk \<Rightarrow> 'room app \<Rightarrow> 'room event \<Rightarrow> 'room app" where
  "step lk s (Mount w) =
     \<lparr>current = emit [GetUserMedia] (current s), inflight = inflight s @ [AwaitProbe w]\<rparr>"
| "step lk s (ClickRequestMic w) =
     (if rendersRequestButton lk (current s)
      then \<lparr>current = emit [GetUserMedia] (current s), inflight = inflight s @ [AwaitRequest w]\<rparr>
      else s)"
| "step lk s (ClickStart w) =
     (if rendersStartButton lk (current s)
      then (case onConnectButtonClicked_begin lk False w (current s) of
              (None, p) \<Rightarrow> \<lparr>current = p, inflight = inflight s\<rparr>
            | (Some k, p) \<Rightarrow> \<lparr>current = p, inflight = inflight s @ [k]\<rparr>)
      else s)"
| "step lk s ClickDisconnect =
     (if rendersDisconnectButton lk (current s)
      then \<lparr>current = (current s)\<lparr>room := disconnectButton lk (room (current s))\<rparr>,
            inflight = inflight s\<rparr>
      else s)"
| "step lk s (Resume i) =
     (if i < length (inflight s)
      then (case resume lk (inflight s ! i) (current s) of
              (k, p) \<Rightarrow> \<lparr>current = p, inflight = settle (inflight s) i k\<rparr>)
      else s)"
| "step lk s (MediaDevicesError e) =
     \<lparr>current = onDeviceFailure e (current s), inflight = inflight s\<rparr>"
| "step lk s (RoomChange f) =
     \<lparr>current = (current s)\<lparr>room := f (room (current s))\<rparr>, inflight = inflight s\<rparr>"

definition run :: "'room sdk \<Rightarrow> 'room app \<Rightarrow> 'room event list \<Rightarrow> 'room app" where
  "run lk s evs = foldl (step lk) s evs"

subsection \<open>A sample environment\<close>

text \<open>
  Concrete inputs for the closed statements below. The sample client library keeps the
  agent state itself as the room: \<open>connect\<close> succeeds on a string address and a string
  token and rejects otherwise, leaving the room as it was. The sample browser grants
  the microphone with one track and serves the four-member body of the endpoint with
  status 200.
\<close>

definition sampleSdk :: "string sdk" where
  "sampleSdk =
     \<lparr>agentState = (\<lambda>r. r),
      connect = (\<lambda>r url token.
        case url of
          Str u \<Rightarrow> (case token of Str t \<Rightarrow> (None, ''connected'')
                              | _ \<Rightarrow> (Some (JsError ''ConnectionError''), r))
        | _ \<Rightarrow> (Some (JsError ''ConnectionError''), r)),
      setMicrophoneEnabled = (\<lambda>r b. (None, r)),
      disconnectButton = (\<lambda>r. ''disconnected'')\<rparr>"

definition sampleBody :: js_value where
  "sampleBody =
     Obj [(''serverUrl'', Str ''wss://x''), (''participantToken'', Str ''t''),
          (''roomName'', Str ''r''), (''participantName'', Str ''p'')]"

definition sampleBrowser :: browser where
  "sampleBrowser =
     \<lparr>getUserMedia = Inr [0],
      connDetailsEndpoint = None,
      locationOrigin = ''https://app.example'',
      newURL = (\<lambda>path base. Inr (base @ path)),
      fetch = (\<lambda>u. Inr \<lparr>status = 200, json = Inr sampleBody\<rparr>)\<rparr>"

text \<open>The same browser with the microphone refused.\<close>

definition refusingBrowser :: browser where
  "refusingBrowser = sampleBrowser\<lparr>getUserMedia := Inl (JsError ''NotAllowedError'')\<rparr>"

text \<open>The same browser with the endpoint unreachable: \<open>fetch\<close> rejects.\<close>

definition unreachableBrowser :: browser where
  "unreachableBrowser = sampleBrowser\<lparr>fetch := (\<lambda>u. Inl (JsError ''TypeError: Failed to fetch''))\<rparr>"

text \<open>The same browser with the endpoint answering status 500 and the full body.\<close>

definition status500Browser :: browser where
  "status500Browser = sampleBrowser\<lparr>fetch := (\<lambda>u. Inr \<lparr>status = 500, json = Inr sampleBody\<rparr>)\<rparr>"

text \<open>The same browser with a body that lacks \<open>participantToken\<close>.\<close>

definition tokenlessBrowser :: browser where
  "tokenlessBrowser =
     sampleBrowser\<lparr>fetch := (\<lambda>u. Inr \<lparr>status = 200, json = Inr (Obj [(''serverUrl'', Str ''wss://x'')])\<rparr>)\<rparr>"

section \<open>Frame lemmas\<close>

lemmas sample_defs =
  sampleSdk_def sampleBody_def sampleBrowser_def refusingBrowser_def unreachableBrowser_def
  status500Browser_def tokenlessBrowser_def initialPage_def

lemmas handler_defs =
  checkMicPermission_def checkMicPermission_try_def requestMicPermission_def
  requestMicPermission_try_def onConnectButtonClicked_def connectionDetailsURL_def
  onDeviceFailure_def emit_def

lemma emit_simps:
  "room (emit es s) = room s"
  "micPermission (emit es s) = micPermission s"
  "attempts (emit es s) = attempts s"
  "effects (emit es s) = effects s @ es"
  by (simp_all add: emit_def)

lemma onConnect_micPermission:
  "micPermission (snd (onConnectButtonClicked lk w s)) = micPermission s"
  by (simp add: onConnectButtonClicked_def Let_def emit_def split: sum.splits prod.splits option.splits)

lemma onConnect_attempts:
  "attempts (snd (onConnectButtonClicked lk w s)) =
     attempts s @ [(micPermission s, agentState lk (room s))]"
  by (simp add: onConnectButtonClicked_def Let_def emit_def split: sum.splits prod.splits option.splits)

lemma onConnect_outcome_room:
  "room s = room s' \<Longrightarrow>
   fst (onConnectButtonClicked lk w s) = fst (onConnectButtonClicked lk w s')"
  by (simp add: onConnectButtonClicked_def Let_def emit_def split: sum.splits prod.splits option.splits)

lemma requestMic_attempts:
  "attempts (snd (requestMicPermission lk w s)) =
     (case getUserMedia w of Inl e \<Rightarrow> attempts s
      | Inr tracks \<Rightarrow> attempts s @ [(Granted, agentState lk (room s))])"
proof (cases "getUserMedia w")
  case (Inl e)
  then show ?thesis
    by (simp add: requestMicPermission_def requestMicPermission_try_def emit_def)
next
  case (Inr tracks)
  let ?s1 = "(emit (GetUserMedia # map TrackStop tracks) s)\<lparr>micPermission := Granted\<rparr>"
  have a: "attempts (snd (onConnectButtonClicked lk w ?s1)) =
      attempts s @ [(Granted, agentState lk (room s))]"
    by (simp add: onConnect_attempts emit_simps)
  show ?thesis
    using a Inr
    by (cases "onConnectButtonClicked lk w ?s1")
       (auto simp: requestMicPermission_def requestMicPermission_try_def emit_simps
             split: sum.splits)
qed


lemma onConnect_effects:
  "connectionDetailsURL w = Inr url \<Longrightarrow>
   \<exists>rest. effects (snd (onConnectButtonClicked lk w s)) = effects s @ Fetch url # rest \<and>
          (\<forall>u. Fetch u \<notin> set rest)"
  by (simp add: onConnectButtonClicked_def Let_def emit_def
      split: sum.splits prod.splits option.splits)


lemma run_Cons: "run lk s (ev # evs) = run lk (step lk s ev) evs"
  by (simp add: run_def)






lemma run_device_errors:
  "run lk s (map MediaDevicesError es) =
     \<lparr>current = (current s)\<lparr>effects := effects (current s) @ concat (map (\<lambda>e. [ConsoleError [Thrown e],
         Alert ''Error acquiring camera or microphone permissions. Please make sure you grant the necessary permissions in your browser and reload the tab'']) es)\<rparr>,
      inflight = inflight s\<rparr>"
proof (induction es arbitrary: s)
  case Nil
  then show ?case by (simp add: run_def)
next
  case (Cons e es)
  have "run lk s (map MediaDevicesError (e # es)) =
        run lk \<lparr>current = onDeviceFailure e (current s), inflight = inflight s\<rparr>
          (map MediaDevicesError es)"
    by (simp add: run_def)
  then show ?case
    by (simp add: Cons.IH) (simp add: onDeviceFailure_def emit_def)
qed

section \<open>Handlers run without interruption\<close>

text \<open>
  \<open>checkMicPermission\<close>, \<open>onConnectButtonClicked\<close> and \<open>requestMicPermission\<close>
  above are the handlers taken from their call to their end. They are what the events
  give when a handler is resumed at each of its awaits with no other event in between,
  whatever other handlers are suspended meanwhile.
\<close>

lemmas resume_defs =
  run_def settle_def rejects_def onConnectButtonClicked_begin_def onConnectButtonClicked_def
  emit_def Let_def

lemma connect_uninterrupted:
  "run lk (case onConnectButtonClicked_begin lk inTry w p of
             (None, p') \<Rightarrow> \<lparr>current = p', inflight = ks\<rparr>
           | (Some k, p') \<Rightarrow> \<lparr>current = p', inflight = ks @ [k]\<rparr>)
     [Resume (length ks), Resume (length ks), Resume (length ks), Resume (length ks)] =
   \<lparr>current = (case onConnectButtonClicked lk w p of
                  (Inl e, p') \<Rightarrow> rejects inTry e p'
                | (Inr u, p') \<Rightarrow> p'),
     inflight = ks\<rparr>"
proof (cases "connectionDetailsURL w")
  case (Inl e)
  then show ?thesis by (simp add: resume_defs)
next
  case url: (Inr url)
  show ?thesis
  proof (cases "fetch w url")
    case (Inl e)
    with url show ?thesis by (simp add: resume_defs)
  next
    case resp: (Inr resp)
    show ?thesis
    proof (cases "json resp")
      case (Inl e)
      with url resp show ?thesis by (simp add: resume_defs)
    next
      case body: (Inr body)
      show ?thesis
      proof (cases "getProp body ''serverUrl''")
        case (Inl e)
        with url resp body show ?thesis by (simp add: resume_defs)
      next
        case su: (Inr serverUrl)
        show ?thesis
        proof (cases "getProp body ''participantToken''")
          case (Inl e)
          with url resp body su show ?thesis by (simp add: resume_defs)
        next
          case tok: (Inr participantToken)
          obtain ce r where c: "connect lk (room p) serverUrl participantToken = (ce, r)"
            by (cases "connect lk (room p) serverUrl participantToken")
          show ?thesis
          proof (cases ce)
            case (Some e)
            with url resp body su tok c show ?thesis by (simp add: resume_defs)
          next
            case None
            obtain me r' where m: "setMicrophoneEnabled lk r True = (me, r')"
              by (cases "setMicrophoneEnabled lk r True")
            from None url resp body su tok c m show ?thesis
              by (cases me) (simp_all add: resume_defs)
          qed
        qed
      qed
    qed
  qed
qed

lemma start_uninterrupted:
  assumes "rendersStartButton lk (current s)"
  shows "run lk s [ClickStart w, Resume (length (inflight s)), Resume (length (inflight s)),
             Resume (length (inflight s)), Resume (length (inflight s))] =
     \<lparr>current = snd (onConnectButtonClicked lk w (current s)), inflight = inflight s\<rparr>"
proof -
  have first: "step lk s (ClickStart w) =
      (case onConnectButtonClicked_begin lk False w (current s) of
             (None, p') \<Rightarrow> \<lparr>current = p', inflight = inflight s\<rparr>
           | (Some k, p') \<Rightarrow> \<lparr>current = p', inflight = inflight s @ [k]\<rparr>)"
    using assms by simp
  have last: "(case onConnectButtonClicked lk w (current s) of
                  (Inl e, p') \<Rightarrow> rejects False e p'
                | (Inr u, p') \<Rightarrow> p') = snd (onConnectButtonClicked lk w (current s))"
    by (simp add: rejects_def split: prod.splits sum.splits)
  show ?thesis
    unfolding run_Cons [of lk s "ClickStart w"] first connect_uninterrupted last ..
qed

lemma request_uninterrupted:
  assumes "rendersRequestButton lk (current s)"
  shows "run lk s [ClickRequestMic w, Resume (length (inflight s)), Resume (length (inflight s)),
             Resume (length (inflight s)), Resume (length (inflight s)),
             Resume (length (inflight s))] =
     \<lparr>current = snd (requestMicPermission lk w (current s)), inflight = inflight s\<rparr>"
proof (cases "getUserMedia w")
  case (Inl e)
  with assms show ?thesis
    by (simp add: run_def settle_def requestMicPermission_def requestMicPermission_try_def
        requestMicPermission_catch_def emit_def)
next
  case (Inr tracks)
  let ?p = "(emit (GetUserMedia # map TrackStop tracks) (current s))\<lparr>micPermission := Granted\<rparr>"
  have first: "step lk s (ClickRequestMic w) =
      \<lparr>current = emit [GetUserMedia] (current s), inflight = inflight s @ [AwaitRequest w]\<rparr>"
    using assms by simp
  have p: "(emit (map TrackStop tracks) (emit [GetUserMedia] (current s)))\<lparr>micPermission := Granted\<rparr> = ?p"
    by (simp add: emit_def)
  have second: "step lk \<lparr>current = emit [GetUserMedia] (current s), inflight = inflight s @ [AwaitRequest w]\<rparr>
        (Resume (length (inflight s))) =
      (case onConnectButtonClicked_begin lk True w ?p of
             (None, p') \<Rightarrow> \<lparr>current = p', inflight = inflight s\<rparr>
           | (Some k, p') \<Rightarrow> \<lparr>current = p', inflight = inflight s @ [k]\<rparr>)"
    using Inr by (simp add: settle_def p split: prod.splits option.splits)
  have last: "(case onConnectButtonClicked lk w ?p of
                  (Inl e, p') \<Rightarrow> rejects True e p'
                | (Inr u, p') \<Rightarrow> p') = snd (requestMicPermission lk w (current s))"
    using Inr
    by (simp add: rejects_def requestMicPermission_def requestMicPermission_try_def
        requestMicPermission_catch_def split: prod.splits sum.splits)
  show ?thesis
    unfolding run_Cons [of lk s "ClickRequestMic w"] first
      run_Cons [of lk _ "Resume (length (inflight s))" "[_, _, _, _]"] second
      connect_uninterrupted last ..
qed

lemma probe_uninterrupted:
  "run lk s [Mount w, Resume (length (inflight s))] =
     \<lparr>current = snd (checkMicPermission w (current s)), inflight = inflight s\<rparr>"
  by (simp add: run_def settle_def checkMicPermission_def checkMicPermission_try_def emit_def
      split: sum.splits)

section \<open>The claims\<close>

text \<open>
  C1, as amended. The claim as written fails: see the counterexample after the witness.
  What holds, once the address is built: when \<open>fetch\<close> rejects (the endpoint is
  unreachable), when \<open>json()\<close> rejects (the body is not JSON) or when a member read
  throws (the body is \<open>null\<close>), \<open>onConnectButtonClicked\<close> rejects with that very
  value, \<open>room.connect\<close> is not called, and the room and \<open>micPermission\<close> are
  left as they were. The status of the response is never read: any status with the
  same body gives the same run. Otherwise \<open>room.connect\<close> is called with the
  body's \<open>serverUrl\<close> and \<open>participantToken\<close> as they are (\<open>undefined\<close> when
  missing), and the function rejects exactly when \<open>room.connect\<close> or
  \<open>setMicrophoneEnabled\<close> does.
\<close>

theorem connect_rejects_only_where_a_call_rejects:
  assumes url: "connectionDetailsURL w = Inr url"
  shows
    "(case fetch w url of
        Inl e \<Rightarrow>
          onConnectButtonClicked lk w s =
            (Inl e, s\<lparr>effects := effects s @ [Fetch url],
                       attempts := attempts s @ [(micPermission s, agentState lk (room s))]\<rparr>)
      | Inr resp \<Rightarrow>
          onConnectButtonClicked lk (w\<lparr>fetch := (fetch w)(url := Inr (resp\<lparr>status := code\<rparr>))\<rparr>) s =
            onConnectButtonClicked lk w s \<and>
          (case json resp of
             Inl e \<Rightarrow>
               onConnectButtonClicked lk w s =
                 (Inl e, s\<lparr>effects := effects s @ [Fetch url],
                            attempts := attempts s @ [(micPermission s, agentState lk (room s))]\<rparr>)
           | Inr body \<Rightarrow>
              (case getProp body ''serverUrl'' of
                 Inl e \<Rightarrow>
                   onConnectButtonClicked lk w s =
                     (Inl e, s\<lparr>effects := effects s @ [Fetch url],
                                attempts := attempts s @ [(micPermission s, agentState lk (room s))]\<rparr>)
               | Inr serverUrl \<Rightarrow>
                  (case getProp body ''participantToken'' of
                     Inl e \<Rightarrow>
                       onConnectButtonClicked lk w s =
                         (Inl e, s\<lparr>effects := effects s @ [Fetch url],
                                    attempts := attempts s @ [(micPermission s, agentState lk (room s))]\<rparr>)
                   | Inr participantToken \<Rightarrow>
                       (\<exists>rest. effects (snd (onConnectButtonClicked lk w s)) =
                          effects s @ Fetch url # RoomConnect serverUrl participantToken # rest) \<and>
                       fst (onConnectButtonClicked lk w s) =
                         (case connect lk (room s) serverUrl participantToken of
                            (Some e, r) \<Rightarrow> Inl e
                          | (None, r) \<Rightarrow>
                              (case setMicrophoneEnabled lk r True of
                                 (Some e, r') \<Rightarrow> Inl e
                               | (None, r') \<Rightarrow> Inr ()))))))"
proof (cases "fetch w url")
  case (Inl e)
  with url show ?thesis
    by (simp add: onConnectButtonClicked_def emit_def)
next
  case (Inr resp)
  have url': "connectionDetailsURL (w\<lparr>fetch := (fetch w)(url := Inr (resp\<lparr>status := code\<rparr>))\<rparr>) = Inr url"
    using url by (simp add: connectionDetailsURL_def)
  have same: "onConnectButtonClicked lk (w\<lparr>fetch := (fetch w)(url := Inr (resp\<lparr>status := code\<rparr>))\<rparr>) s =
      onConnectButtonClicked lk w s"
    unfolding onConnectButtonClicked_def url url' using Inr by simp
  have rest: "case json resp of
             Inl e \<Rightarrow>
               onConnectButtonClicked lk w s =
                 (Inl e, s\<lparr>effects := effects s @ [Fetch url],
                            attempts := attempts s @ [(micPermission s, agentState lk (room s))]\<rparr>)
           | Inr body \<Rightarrow>
              (case getProp body ''serverUrl'' of
                 Inl e \<Rightarrow>
                   onConnectButtonClicked lk w s =
                     (Inl e, s\<lparr>effects := effects s @ [Fetch url],
                                attempts := attempts s @ [(micPermission s, agentState lk (room s))]\<rparr>)
               | Inr serverUrl \<Rightarrow>
                  (case getProp body ''participantToken'' of
                     Inl e \<Rightarrow>
                       onConnectButtonClicked lk w s =
                         (Inl e, s\<lparr>effects := effects s @ [Fetch url],
                                    attempts := attempts s @ [(micPermission s, agentState lk (room s))]\<rparr>)
                   | Inr participantToken \<Rightarrow>
                       (\<exists>rest. effects (snd (onConnectButtonClicked lk w s)) =
                          effects s @ Fetch url # RoomConnect serverUrl participantToken # rest) \<and>
                       fst (onConnectButtonClicked lk w s) =
                         (case connect lk (room s) serverUrl participantToken of
                            (Some e, r) \<Rightarrow> Inl e
                          | (None, r) \<Rightarrow>
                              (case setMicrophoneEnabled lk r True of
                                 (Some e, r') \<Rightarrow> Inl e
                               | (None, r') \<Rightarrow> Inr ()))))"
    using url Inr
    by (simp add: onConnectButtonClicked_def emit_def Let_def
        split: sum.splits prod.splits option.splits)
  from Inr same rest show ?thesis by simp
qed

text \<open>
  With the endpoint unreachable the function rejects with what \<open>fetch\<close> rejected
  with and the room is as before; with a body lacking \<open>participantToken\<close> the join is
  attempted with \<open>undefined\<close> and the rejection is the one of \<open>room.connect\<close>.
\<close>

theorem connect_rejects_only_where_a_call_rejects_witness:
  "connectionDetailsURL unreachableBrowser = Inr ''https://app.example/api/connection-details'' \<and>
   onConnectButtonClicked sampleSdk unreachableBrowser (initialPage ''disconnected'') =
     (Inl (JsError ''TypeError: Failed to fetch''),
      \<lparr>room = ''disconnected'', micPermission = Prompt,
        effects = [Fetch ''https://app.example/api/connection-details''],
        attempts = [(Prompt, ''disconnected'')]\<rparr>) \<and>
   fst (onConnectButtonClicked sampleSdk tokenlessBrowser (initialPage ''disconnected'')) =
     Inl (JsError ''ConnectionError'') \<and>
   effects (snd (onConnectButtonClicked sampleSdk tokenlessBrowser (initialPage ''disconnected''))) =
     [Fetch ''https://app.example/api/connection-details'',
      RoomConnect (Str ''wss://x'') Undefined]"
proof -
  have u: "connectionDetailsURL unreachableBrowser = Inr ''https://app.example/api/connection-details''"
    by (simp add: connectionDetailsURL_def sample_defs)
  have t: "connectionDetailsURL tokenlessBrowser = Inr ''https://app.example/api/connection-details''"
    by (simp add: connectionDetailsURL_def sample_defs)
  show ?thesis
    using u connect_rejects_only_where_a_call_rejects
        [OF u, where lk = sampleSdk and s = "initialPage ''disconnected''"]
      connect_rejects_only_where_a_call_rejects
        [OF t, where lk = sampleSdk and s = "initialPage ''disconnected''"]
    by (simp add: handler_defs sample_defs)
qed

text \<open>
  C1 as written, refuted: the endpoint answers status 500 with the full body; the
  function does not reject at all, and the room is joined.
\<close>

theorem status500_connects_counterexample:
  "fetch status500Browser ''https://app.example/api/connection-details'' =
     Inr \<lparr>status = 500, json = Inr sampleBody\<rparr> \<and>
   onConnectButtonClicked sampleSdk status500Browser (initialPage ''disconnected'') =
     (Inr (), \<lparr>room = ''connected'', micPermission = Prompt,
               effects = [Fetch ''https://app.example/api/connection-details'',
                          RoomConnect (Str ''wss://x'') (Str ''t''),
                          SetMicrophoneEnabled True],
               attempts = [(Prompt, ''disconnected'')]\<rparr>)"
  by (simp add: handler_defs sample_defs)





text \<open>
  C3. \<open>requestMicPermission\<close> never rejects. When \<open>getUserMedia\<close> resolves, the
  tracks are stopped, \<open>micPermission\<close> is set to granted and
  \<open>onConnectButtonClicked\<close> runs next, from that state: it is entered once, with the
  permission granted, and when it succeeds its final state is the result, the
  permission still granted. When \<open>getUserMedia\<close> rejects, the result is the state
  with \<open>micPermission\<close> denied and, after the one \<open>getUserMedia\<close> call, exactly the
  console line and the alert: no second request, no connect attempt.
\<close>

theorem requestMicPermission_grant_then_connect:
  "(case getUserMedia w of
      Inr tracks \<Rightarrow>
        (case onConnectButtonClicked lk w
                (s\<lparr>micPermission := Granted,
                   effects := effects s @ GetUserMedia # map TrackStop tracks\<rparr>) of
           (Inr u, s2) \<Rightarrow>
             requestMicPermission lk w s = (Inr (), s2) \<and> micPermission s2 = Granted
         | (Inl e, s2) \<Rightarrow>
             requestMicPermission lk w s =
               (Inr (), s2\<lparr>micPermission := Denied,
                            effects := effects s2 @
                              [ConsoleError [Text ''Error acquiring microphone permissions:'', Thrown e],
                               Alert ''Microphone access was denied. Please check your browser settings.'']\<rparr>))
        \<and> attempts (snd (requestMicPermission lk w s)) =
            attempts s @ [(Granted, agentState lk (room s))]
    | Inl e \<Rightarrow>
        requestMicPermission lk w s =
          (Inr (), s\<lparr>micPermission := Denied,
                      effects := effects s @
                        [GetUserMedia,
                         ConsoleError [Text ''Error acquiring microphone permissions:'', Thrown e],
                         Alert ''Microphone access was denied. Please check your browser settings.'']\<rparr>))"
proof (cases "getUserMedia w")
  case (Inl e)
  then show ?thesis
    by (simp add: requestMicPermission_def requestMicPermission_try_def emit_def)
next
  case (Inr tracks)
  let ?s1 = "s\<lparr>micPermission := Granted,
               effects := effects s @ GetUserMedia # map TrackStop tracks\<rparr>"
  have s1: "(emit (GetUserMedia # map TrackStop tracks) s)\<lparr>micPermission := Granted\<rparr> = ?s1"
    by (simp add: emit_def)
  obtain r s2 where c: "onConnectButtonClicked lk w ?s1 = (r, s2)"
    by (cases "onConnectButtonClicked lk w ?s1")
  have m: "micPermission s2 = Granted"
    using onConnect_micPermission [of lk w ?s1] c by simp
  have a: "attempts (snd (requestMicPermission lk w s)) =
      attempts s @ [(Granted, agentState lk (room s))]"
    using Inr by (simp add: requestMic_attempts)
  have "case r of
          Inr u \<Rightarrow> requestMicPermission lk w s = (Inr (), s2)
        | Inl e \<Rightarrow> requestMicPermission lk w s =
               (Inr (), s2\<lparr>micPermission := Denied,
                            effects := effects s2 @
                              [ConsoleError [Text ''Error acquiring microphone permissions:'', Thrown e],
                               Alert ''Microphone access was denied. Please check your browser settings.'']\<rparr>)"
    using Inr c
    by (cases r) (simp_all add: requestMicPermission_def requestMicPermission_try_def s1, simp add: emit_def)
  with Inr c m a show ?thesis
    by (cases r) simp_all
qed

text \<open>A grant followed by a successful join, and a refusal.\<close>

theorem requestMicPermission_grant_then_connect_witness:
  "requestMicPermission sampleSdk sampleBrowser (initialPage ''disconnected'') =
     (Inr (), \<lparr>room = ''connected'', micPermission = Granted,
               effects = [GetUserMedia, TrackStop 0,
                          Fetch ''https://app.example/api/connection-details'',
                          RoomConnect (Str ''wss://x'') (Str ''t''),
                          SetMicrophoneEnabled True],
               attempts = [(Granted, ''disconnected'')]\<rparr>) \<and>
   requestMicPermission sampleSdk refusingBrowser (initialPage ''disconnected'') =
     (Inr (), \<lparr>room = ''disconnected'', micPermission = Denied,
               effects = [GetUserMedia,
                          ConsoleError [Text ''Error acquiring microphone permissions:'',
                                        Thrown (JsError ''NotAllowedError'')],
                          Alert ''Microphone access was denied. Please check your browser settings.''],
               attempts = []\<rparr>)"
  using requestMicPermission_grant_then_connect
      [where w = sampleBrowser and lk = sampleSdk and s = "initialPage ''disconnected''"]
    requestMicPermission_grant_then_connect
      [where w = refusingBrowser and lk = sampleSdk and s = "initialPage ''disconnected''"]
  by (simp add: handler_defs sample_defs)

text \<open>
  C4. \<open>checkMicPermission\<close>: when the microphone opens, every track of the stream is
  stopped right after, \<open>micPermission\<close> becomes granted and the result is \<open>true\<close>;
  when it does not, the failure is logged, \<open>micPermission\<close> becomes \<open>'prompt'\<close> and
  the result is \<open>false\<close>. It never leaves \<open>micPermission\<close> denied and never
  rejects.
\<close>

theorem checkMicPermission_probe:
  "(case getUserMedia w of
      Inr tracks \<Rightarrow>
        checkMicPermission w s =
          (Inr True, s\<lparr>micPermission := Granted,
                        effects := effects s @ GetUserMedia # map TrackStop tracks\<rparr>)
    | Inl e \<Rightarrow>
        checkMicPermission w s =
          (Inr False, s\<lparr>micPermission := Prompt,
                         effects := effects s @
                           [GetUserMedia,
                            ConsoleLog [Text ''Microphone permission not granted:'', Thrown e]]\<rparr>))
   \<and> micPermission (snd (checkMicPermission w s)) \<noteq> Denied
   \<and> (\<exists>b. fst (checkMicPermission w s) = Inr b)"
  by (cases "getUserMedia w") (auto simp: checkMicPermission_def checkMicPermission_try_def emit_def)

text \<open>
  C5. When the microphone is granted but the connect sequence then rejects (the
  credential fetch or the join), \<open>requestMicPermission\<close> handles it as a refusal:
  it does not reject, \<open>micPermission\<close> ends denied, and the last two effects are the
  console line with the connect error and the microphone-denied alert.
\<close>

theorem connect_failure_after_grant_sets_denied:
  assumes grant: "getUserMedia w = Inr tracks"
    and fails: "fst (onConnectButtonClicked lk w s) = Inl e"
  shows "fst (requestMicPermission lk w s) = Inr () \<and>
         micPermission (snd (requestMicPermission lk w s)) = Denied \<and>
         (\<exists>before. effects (snd (requestMicPermission lk w s)) =
            before @
            [ConsoleError [Text ''Error acquiring microphone permissions:'', Thrown e],
             Alert ''Microphone access was denied. Please check your browser settings.''])"
proof -
  let ?s1 = "(emit (GetUserMedia # map TrackStop tracks) s)\<lparr>micPermission := Granted\<rparr>"
  have "fst (onConnectButtonClicked lk w ?s1) = fst (onConnectButtonClicked lk w s)"
    by (rule onConnect_outcome_room) (simp add: emit_simps)
  with fails obtain s2 where s2: "onConnectButtonClicked lk w ?s1 = (Inl e, s2)"
    by (cases "onConnectButtonClicked lk w ?s1") simp
  show ?thesis
    using grant s2
    by (simp add: requestMicPermission_def requestMicPermission_try_def emit_simps)
qed

text \<open>The microphone is granted and the endpoint is unreachable.\<close>

theorem connect_failure_after_grant_sets_denied_witness:
  "getUserMedia unreachableBrowser = Inr [0] \<and>
   fst (onConnectButtonClicked sampleSdk unreachableBrowser (initialPage ''disconnected'')) =
     Inl (JsError ''TypeError: Failed to fetch'') \<and>
   micPermission (snd (requestMicPermission sampleSdk unreachableBrowser
     (initialPage ''disconnected''))) = Denied"
proof -
  have g: "getUserMedia unreachableBrowser = Inr [0]"
    by (simp add: sample_defs)
  have f: "fst (onConnectButtonClicked sampleSdk unreachableBrowser (initialPage ''disconnected'')) =
     Inl (JsError ''TypeError: Failed to fetch'')"
    by (simp add: handler_defs sample_defs)
  show ?thesis
    using g f connect_failure_after_grant_sets_denied [OF g f] by simp
qed

text \<open>
  C6. When \<open>onConnectButtonClicked\<close>, run on its own, rejects (at whichever call),
  \<open>micPermission\<close> is what it was before.
\<close>

theorem connect_failure_keeps_micPermission:
  "fst (onConnectButtonClicked lk w s) = Inl e \<Longrightarrow>
   micPermission (snd (onConnectButtonClicked lk w s)) = micPermission s"
  by (simp add: onConnect_micPermission)

text \<open>The endpoint is unreachable; the permission was granted and stays granted.\<close>

theorem connect_failure_keeps_micPermission_witness:
  "fst (onConnectButtonClicked sampleSdk unreachableBrowser
          ((initialPage ''disconnected'')\<lparr>micPermission := Granted\<rparr>)) =
     Inl (JsError ''TypeError: Failed to fetch'') \<and>
   micPermission (snd (onConnectButtonClicked sampleSdk unreachableBrowser
          ((initialPage ''disconnected'')\<lparr>micPermission := Granted\<rparr>))) = Granted"
proof -
  have f: "fst (onConnectButtonClicked sampleSdk unreachableBrowser
          ((initialPage ''disconnected'')\<lparr>micPermission := Granted\<rparr>)) =
     Inl (JsError ''TypeError: Failed to fetch'')"
    by (simp add: handler_defs sample_defs)
  show ?thesis
    using f connect_failure_keeps_micPermission [OF f] by (simp add: initialPage_def)
qed

text \<open>
  C7. The address of the credential endpoint is built from one optional variable:
  the path is \<open>"/api/connection-details"\<close> when the variable is absent and the
  variable's value otherwise, resolved against the page's origin. The one \<open>fetch\<close>
  of \<open>onConnectButtonClicked\<close> goes to that address, as its first effect; when the
  address cannot be built the function rejects without any effect.
\<close>

theorem connection_details_endpoint:
  "connectionDetailsURL w =
     (case connDetailsEndpoint w of
        None \<Rightarrow> newURL w ''/api/connection-details'' (locationOrigin w)
      | Some path \<Rightarrow> newURL w path (locationOrigin w)) \<and>
   (case connectionDetailsURL w of
      Inr url \<Rightarrow>
        (\<exists>rest. effects (snd (onConnectButtonClicked lk w s)) = effects s @ Fetch url # rest \<and>
                (\<forall>u. Fetch u \<notin> set rest))
    | Inl e \<Rightarrow>
        fst (onConnectButtonClicked lk w s) = Inl e \<and>
        effects (snd (onConnectButtonClicked lk w s)) = effects s)"
proof -
  have "connectionDetailsURL w =
     (case connDetailsEndpoint w of
        None \<Rightarrow> newURL w ''/api/connection-details'' (locationOrigin w)
      | Some path \<Rightarrow> newURL w path (locationOrigin w))"
    by (simp add: connectionDetailsURL_def split: option.splits)
  moreover have "case connectionDetailsURL w of
      Inr url \<Rightarrow>
        (\<exists>rest. effects (snd (onConnectButtonClicked lk w s)) = effects s @ Fetch url # rest \<and>
                (\<forall>u. Fetch u \<notin> set rest))
    | Inl e \<Rightarrow>
        fst (onConnectButtonClicked lk w s) = Inl e \<and>
        effects (snd (onConnectButtonClicked lk w s)) = effects s"
  proof (cases "connectionDetailsURL w")
    case (Inl e)
    then show ?thesis by (simp add: onConnectButtonClicked_def)
  next
    case (Inr url)
    then show ?thesis using onConnect_effects [OF Inr] by simp
  qed
  ultimately show ?thesis by simp
qed

text \<open>The default path, and a path given by the variable.\<close>

theorem connection_details_endpoint_witness:
  "effects (snd (onConnectButtonClicked sampleSdk unreachableBrowser (initialPage ''disconnected'')))
     = [Fetch ''https://app.example/api/connection-details''] \<and>
   effects (snd (onConnectButtonClicked sampleSdk
       (unreachableBrowser\<lparr>connDetailsEndpoint := Some ''/custom''\<rparr>) (initialPage ''disconnected'')))
     = [Fetch ''https://app.example/custom'']"
  using connection_details_endpoint
      [where w = unreachableBrowser and lk = sampleSdk and s = "initialPage ''disconnected''"]
  by (simp add: handler_defs sample_defs)

text \<open>
  C8. However many \<open>MediaDevicesError\<close> notifications arrive, the room is the one it
  was, so the agent state it reports is unchanged (a connected session stays
  connected), and \<open>micPermission\<close> and the suspended handlers are unchanged; each
  notification is logged to the console and shown in an alert.
\<close>

theorem device_failure_alerts_and_keeps_room:
  "room (current (run lk s (map MediaDevicesError es))) = room (current s) \<and>
   agentState lk (room (current (run lk s (map MediaDevicesError es)))) =
     agentState lk (room (current s)) \<and>
   micPermission (current (run lk s (map MediaDevicesError es))) = micPermission (current s) \<and>
   inflight (run lk s (map MediaDevicesError es)) = inflight s \<and>
   effects (current (step lk s (MediaDevicesError e))) =
     effects (current s) @ [ConsoleError [Thrown e],
       Alert ''Error acquiring camera or microphone permissions. Please make sure you grant the necessary permissions in your browser and reload the tab'']"
  by (simp add: run_device_errors) (simp add: onDeviceFailure_def emit_def)

end
